theory Spec2Isabelle
  imports Complex_Main "HOL-Library.Multiset" "HOL-Library.Char_ord" "HOL-Library.List_Lexorder"
begin

section \<open>NeoWS-Monitor: the ingestion, normalization and scoring pipeline\<close>

text \<open>
  The development follows \<^verbatim>\<open>src/app.py\<close> top to bottom and \<^verbatim>\<open>src/visuals.py\<close> for the
  summary block. Python exceptions that leave the script uncaught are values of
  \<open>error\<close>; a computation that may raise returns \<open>error + 'a\<close> with \<open>Inl\<close> for the
  exception. Python and numpy floats are modelled by exact reals: rounding is not
  part of the model, the non-finite results of numpy division are
  (see \<open>npfloat\<close> below).
\<close>

subsection \<open>Exceptions\<close>

text \<open>
  The first six constructors are the Python exceptions the modelled statements can raise.
  \<open>EmptyCorpusError\<close> is the error kind the specification names for an aggregate over
  zero records; no statement of the source constructs or raises it.
\<close>

datatype error =
    KeyError
  | IndexError
  | TypeError
  | ValueError
  | AttributeError
  | OverflowError
  | EmptyCorpusError

subsection \<open>Date range validation (app.py, lines 26-30)\<close>

text \<open>
  A \<^verbatim>\<open>datetime.date\<close> is modelled by its proleptic Gregorian ordinal
  (\<^verbatim>\<open>date.toordinal()\<close>), an integer between 1 (\<^verbatim>\<open>date.min\<close>) and 3652059
  (\<^verbatim>\<open>date.max\<close>, 9999-12-31). Subtracting two dates gives a \<^verbatim>\<open>timedelta\<close> whose
  \<^verbatim>\<open>.days\<close> is the difference of the ordinals; adding a \<^verbatim>\<open>timedelta\<close> raises
  \<^verbatim>\<open>OverflowError\<close> when the result leaves the range.
\<close>

definition date_min :: int where
  "date_min = 1"

definition date_max :: int where
  "date_max = 3652059"

definition valid_date :: "int \<Rightarrow> bool" where
  "valid_date d = (date_min \<le> d \<and> d \<le> date_max)"

definition date_add_days :: "int \<Rightarrow> int \<Rightarrow> error + int" where
  "date_add_days d n =
     (if valid_date (d + n) then Inr (d + n) else Inl OverflowError)"

text \<open>
  \<^verbatim>\<open>
  date_diff = (end_date - start_date).days
  if date_diff > 7:
      st.warning(...)
      end_date = start_date + timedelta(days=7)
  \<close>
  The result is the window used afterwards and whether the warning was shown.
\<close>

record date_window =
  start_date :: int
  end_date :: int
  warned :: bool

definition validate_date_range :: "int \<Rightarrow> int \<Rightarrow> error + date_window" where
  "validate_date_range start end =
     (let date_diff = end - start in
      if date_diff > 7 then
        (case date_add_days start 7 of
           Inl e \<Rightarrow> Inl e
         | Inr end' \<Rightarrow> Inr \<lparr>start_date = start, end_date = end', warned = True\<rparr>)
      else Inr \<lparr>start_date = start, end_date = end, warned = False\<rparr>)"

subsection \<open>The upstream payload\<close>

text \<open>
  \<^verbatim>\<open>fetch_asteroid_data\<close> returns \<^verbatim>\<open>response.json()\<close>: a value built from
  \<^verbatim>\<open>None\<close>, booleans, numbers, strings, lists and dicts with string keys. A dict is
  an association list in insertion order (\<^verbatim>\<open>json.loads\<close> never yields a repeated key).
\<close>

datatype json =
    JNull
  | JBool bool
  | JNum real
  | JStr string
  | JArr "json list"
  | JObj "(string \<times> json) list"

text \<open>Running a step after one that may raise: the exception propagates.\<close>

definition and_then :: "error + 'a \<Rightarrow> ('a \<Rightarrow> error + 'b) \<Rightarrow> error + 'b" where
  "and_then m f = (case m of Inl e \<Rightarrow> Inl e | Inr v \<Rightarrow> f v)"

text \<open>Python's truth value, as tested by \<^verbatim>\<open>not x\<close>.\<close>

fun truthy :: "json \<Rightarrow> bool" where
  "truthy JNull = False"
| "truthy (JBool b) = b"
| "truthy (JNum n) = (n \<noteq> 0)"
| "truthy (JStr s) = (s \<noteq> [])"
| "truthy (JArr xs) = (xs \<noteq> [])"
| "truthy (JObj kvs) = (kvs \<noteq> [])"

text \<open>
  The subscripts the script writes: a string key (\<^verbatim>\<open>x['name']\<close>) or a non-negative
  position (\<^verbatim>\<open>x[0]\<close>). A dict raises \<^verbatim>\<open>KeyError\<close> for an absent key (a position is
  never a key of a JSON dict), a list or string raises \<^verbatim>\<open>IndexError\<close> out of range and
  \<^verbatim>\<open>TypeError\<close> for a string subscript, and \<^verbatim>\<open>None\<close>, booleans and numbers are not
  subscriptable.
\<close>

datatype subscript = Key string | Pos nat

fun getitem :: "json \<Rightarrow> subscript \<Rightarrow> error + json" where
  "getitem (JObj kvs) (Key k) =
     (case map_of kvs k of None \<Rightarrow> Inl KeyError | Some v \<Rightarrow> Inr v)"
| "getitem (JObj kvs) (Pos i) = Inl KeyError"
| "getitem (JArr xs) (Pos i) =
     (if i < length xs then Inr (xs ! i) else Inl IndexError)"
| "getitem (JArr xs) (Key k) = Inl TypeError"
| "getitem (JStr s) (Pos i) =
     (if i < length s then Inr (JStr [s ! i]) else Inl IndexError)"
| "getitem (JStr s) (Key k) = Inl TypeError"
| "getitem JNull sub = Inl TypeError"
| "getitem (JBool b) sub = Inl TypeError"
| "getitem (JNum n) sub = Inl TypeError"

text \<open>A chain of subscripts, \<^verbatim>\<open>x[a][b][c]\<close>, evaluated left to right.\<close>

fun getpath :: "json \<Rightarrow> subscript list \<Rightarrow> error + json" where
  "getpath v [] = Inr v"
| "getpath v (sub # subs) = and_then (getitem v sub) (\<lambda>w. getpath w subs)"

text \<open>\<^verbatim>\<open>d.get(key, default)\<close> and \<^verbatim>\<open>d.items()\<close> exist on dicts only.\<close>

fun dict_get :: "json \<Rightarrow> string \<Rightarrow> json \<Rightarrow> error + json" where
  "dict_get (JObj kvs) k dflt =
     Inr (case map_of kvs k of None \<Rightarrow> dflt | Some v \<Rightarrow> v)"
| "dict_get JNull k dflt = Inl AttributeError"
| "dict_get (JBool b) k dflt = Inl AttributeError"
| "dict_get (JNum n) k dflt = Inl AttributeError"
| "dict_get (JStr s) k dflt = Inl AttributeError"
| "dict_get (JArr xs) k dflt = Inl AttributeError"

fun dict_items :: "json \<Rightarrow> error + (string \<times> json) list" where
  "dict_items (JObj kvs) = Inr kvs"
| "dict_items JNull = Inl AttributeError"
| "dict_items (JBool b) = Inl AttributeError"
| "dict_items (JNum n) = Inl AttributeError"
| "dict_items (JStr s) = Inl AttributeError"
| "dict_items (JArr xs) = Inl AttributeError"

text \<open>
  What a \<^verbatim>\<open>for\<close> loop iterates over: the elements of a list, the keys of a dict, the
  one-character strings of a string; anything else is not iterable.
\<close>

fun py_iter :: "json \<Rightarrow> error + json list" where
  "py_iter (JArr xs) = Inr xs"
| "py_iter (JObj kvs) = Inr (map (\<lambda>kv. JStr (fst kv)) kvs)"
| "py_iter (JStr s) = Inr (map (\<lambda>c. JStr [c]) s)"
| "py_iter JNull = Inl TypeError"
| "py_iter (JBool b) = Inl TypeError"
| "py_iter (JNum n) = Inl TypeError"

text \<open>
  \<^verbatim>\<open>float(x)\<close>: a number is taken as it is, a boolean is 0 or 1, a string is parsed and
  raises \<^verbatim>\<open>ValueError\<close> when it is no float literal. The literal parser is the builtin's
  and is a parameter here (\<open>None\<close> for a rejected string; a literal for infinity or
  NaN has no real value and is outside the model).
\<close>

fun py_float :: "(string \<Rightarrow> real option) \<Rightarrow> json \<Rightarrow> error + real" where
  "py_float parse (JStr s) =
     (case parse s of None \<Rightarrow> Inl ValueError | Some x \<Rightarrow> Inr x)"
| "py_float parse (JNum n) = Inr n"
| "py_float parse (JBool b) = Inr (if b then 1 else 0)"
| "py_float parse JNull = Inl TypeError"
| "py_float parse (JArr xs) = Inl TypeError"
| "py_float parse (JObj kvs) = Inl TypeError"

subsection \<open>Normalization loop (app.py, lines 48-67)\<close>

text \<open>
  The dict built for one asteroid. The same columns later make up the data frame, where
  pandas gives each a dtype: the record is polymorphic in the type of the text columns,
  of the diameter columns and of the hazard flag. In the loop all three are raw payload
  values.
\<close>

record ('s, 'n, 'b) asteroid_info =
  id' :: 's
  name :: 's
  date :: string
  diameter_min_km :: 'n
  diameter_max_km :: 'n
  is_hazardous :: 'b
  close_approach_date :: 's
  miss_distance_km :: real
  relative_velocity_kph :: real

type_synonym raw_info = "(json, json, json) asteroid_info"

text \<open>
  One pass of the inner loop body. \<open>Inr None\<close> is the \<^verbatim>\<open>continue\<close> of line 54,
  \<open>Inr (Some info)\<close> the dict appended at line 67, \<open>Inl e\<close> an exception raised by a
  subscript or by \<^verbatim>\<open>float\<close>; the entries of the dict literal are evaluated in the
  order they are written.
\<close>

definition flatten_asteroid ::
  "(string \<Rightarrow> real option) \<Rightarrow> string \<Rightarrow> json \<Rightarrow> error + raw_info option" where
  "flatten_asteroid parse dt asteroid =
     and_then (getitem asteroid (Key ''close_approach_data'')) (\<lambda>cad.
       if \<not> truthy cad then Inr None
       else
         and_then (getitem asteroid (Key ''id'')) (\<lambda>v_id.
         and_then (getitem asteroid (Key ''name'')) (\<lambda>v_name.
         and_then (getpath asteroid [Key ''estimated_diameter'', Key ''kilometers'',
                     Key ''estimated_diameter_min'']) (\<lambda>v_min.
         and_then (getpath asteroid [Key ''estimated_diameter'', Key ''kilometers'',
                     Key ''estimated_diameter_max'']) (\<lambda>v_max.
         and_then (getitem asteroid (Key ''is_potentially_hazardous_asteroid'')) (\<lambda>v_haz.
         and_then (getpath asteroid [Key ''close_approach_data'', Pos 0,
                     Key ''close_approach_date'']) (\<lambda>v_cad.
         and_then (and_then (getpath asteroid [Key ''close_approach_data'', Pos 0,
                     Key ''miss_distance'', Key ''kilometers'']) (py_float parse)) (\<lambda>v_miss.
         and_then (and_then (getpath asteroid [Key ''close_approach_data'', Pos 0,
                     Key ''relative_velocity'', Key ''kilometers_per_hour'']) (py_float parse)) (\<lambda>v_vel.
           Inr (Some \<lparr>id' = v_id, name = v_name, date = dt,
                       diameter_min_km = v_min, diameter_max_km = v_max,
                       is_hazardous = v_haz, close_approach_date = v_cad,
                       miss_distance_km = v_miss, relative_velocity_kph = v_vel\<rparr>))))))))))"

text \<open>The inner loop over the asteroids of one date, appending to \<^verbatim>\<open>all_asteroids\<close>.\<close>

fun for_asteroids ::
  "(string \<Rightarrow> real option) \<Rightarrow> string \<Rightarrow> json list \<Rightarrow> raw_info list \<Rightarrow> error + raw_info list" where
  "for_asteroids parse dt [] all_asteroids = Inr all_asteroids"
| "for_asteroids parse dt (asteroid # rest) all_asteroids =
     (case flatten_asteroid parse dt asteroid of
        Inl e \<Rightarrow> Inl e
      | Inr None \<Rightarrow> for_asteroids parse dt rest all_asteroids
      | Inr (Some info) \<Rightarrow> for_asteroids parse dt rest (all_asteroids @ [info]))"

text \<open>The outer loop over \<^verbatim>\<open>neo_data.items()\<close>.\<close>

fun for_dates ::
  "(string \<Rightarrow> real option) \<Rightarrow> (string \<times> json) list \<Rightarrow> raw_info list \<Rightarrow> error + raw_info list" where
  "for_dates parse [] all_asteroids = Inr all_asteroids"
| "for_dates parse ((dt, asteroids) # rest) all_asteroids =
     (case py_iter asteroids of
        Inl e \<Rightarrow> Inl e
      | Inr objs \<Rightarrow>
          (case for_asteroids parse dt objs all_asteroids of
             Inl e \<Rightarrow> Inl e
           | Inr all_asteroids' \<Rightarrow> for_dates parse rest all_asteroids'))"

text \<open>
  \<^verbatim>\<open>
  neo_data = data.get('near_earth_objects', {})
  all_asteroids = []
  for date, asteroids in neo_data.items(): ...
  \<close>
\<close>

definition normalize :: "(string \<Rightarrow> real option) \<Rightarrow> json \<Rightarrow> error + raw_info list" where
  "normalize parse data =
     and_then (dict_get data ''near_earth_objects'' (JObj [])) (\<lambda>neo_data.
     and_then (dict_items neo_data) (\<lambda>items.
       for_dates parse items []))"

text \<open>
  The objects of a payload, in the order the loops visit them, and their number. The
  script shows the payload's own \<^verbatim>\<open>element_count\<close> field but never uses it in the
  normalization; the count here is the number of objects actually listed.
\<close>

definition date_objects :: "string \<times> json \<Rightarrow> json list" where
  "date_objects item = (case py_iter (snd item) of Inl e \<Rightarrow> [] | Inr objs \<Rightarrow> objs)"

definition raw_objects :: "json \<Rightarrow> json list" where
  "raw_objects data =
     (case dict_get data ''near_earth_objects'' (JObj []) of
        Inl e \<Rightarrow> []
      | Inr neo_data \<Rightarrow>
          (case dict_items neo_data of
             Inl e \<Rightarrow> []
           | Inr items \<Rightarrow> concat (map date_objects items)))"

definition total_object_count :: "json \<Rightarrow> nat" where
  "total_object_count data = length (raw_objects data)"

text \<open>An object has a close approach when line 53 does not skip it.\<close>

definition has_close_approach :: "json \<Rightarrow> bool" where
  "has_close_approach asteroid =
     (case getitem asteroid (Key ''close_approach_data'') of
        Inl e \<Rightarrow> False
      | Inr cad \<Rightarrow> truthy cad)"

text \<open>
  The objects on which a pass of the loop body cannot complete: the key
  \<^verbatim>\<open>close_approach_data\<close> is absent, or the object is not skipped and one of the
  subscript chains of the dict literal fails.
\<close>

definition required_paths :: "subscript list list" where
  "required_paths =
     [[Key ''id''],
      [Key ''name''],
      [Key ''estimated_diameter'', Key ''kilometers'', Key ''estimated_diameter_min''],
      [Key ''estimated_diameter'', Key ''kilometers'', Key ''estimated_diameter_max''],
      [Key ''is_potentially_hazardous_asteroid''],
      [Key ''close_approach_data'', Pos 0, Key ''close_approach_date''],
      [Key ''close_approach_data'', Pos 0, Key ''miss_distance'', Key ''kilometers''],
      [Key ''close_approach_data'', Pos 0, Key ''relative_velocity'', Key ''kilometers_per_hour'']]"

definition lacks :: "json \<Rightarrow> subscript list \<Rightarrow> bool" where
  "lacks asteroid path = (case getpath asteroid path of Inl e \<Rightarrow> True | Inr v \<Rightarrow> False)"

definition missing_required_field :: "json \<Rightarrow> bool" where
  "missing_required_field asteroid =
     (lacks asteroid [Key ''close_approach_data''] \<or>
      (has_close_approach asteroid \<and> list_ex (lacks asteroid) required_paths))"

subsection \<open>A parser for plain decimal numerals\<close>

text \<open>
  The feed writes distances and velocities as plain decimal numerals in strings
  (\<^verbatim>\<open>"500000"\<close>, \<^verbatim>\<open>"40000.5"\<close>). On these, and with a leading sign, \<open>decimal\<close> is what
  \<^verbatim>\<open>float\<close> computes up to rounding. The other literal forms \<^verbatim>\<open>float\<close> accepts
  (exponents, surrounding blanks, underscores, infinities, NaN) are not covered by this
  instance; every general statement below is about an arbitrary parser.
\<close>

definition digit_of :: "char \<Rightarrow> nat option" where
  "digit_of c =
     (if CHR ''0'' \<le> c \<and> c \<le> CHR ''9'' then Some (of_char c - 48) else None)"

fun digits_acc :: "nat \<Rightarrow> string \<Rightarrow> nat option" where
  "digits_acc n [] = Some n"
| "digits_acc n (c # cs) =
     (case digit_of c of None \<Rightarrow> None | Some d \<Rightarrow> digits_acc (10 * n + d) cs)"

definition unsigned_decimal :: "string \<Rightarrow> real option" where
  "unsigned_decimal body =
     (let ip = takeWhile (\<lambda>c. c \<noteq> CHR ''.'') body;
          fp = drop 1 (dropWhile (\<lambda>c. c \<noteq> CHR ''.'') body)
      in if ip = [] \<and> fp = [] then None
         else (case digits_acc 0 ip of
                 None \<Rightarrow> None
               | Some i \<Rightarrow>
                   (case digits_acc 0 fp of
                      None \<Rightarrow> None
                    | Some f \<Rightarrow> Some (real i + real f / 10 ^ length fp))))"

fun decimal :: "string \<Rightarrow> real option" where
  "decimal [] = None"
| "decimal (c # cs) =
     (if c = CHR ''-'' then map_option uminus (unsigned_decimal cs)
      else if c = CHR ''+'' then unsigned_decimal cs
      else unsigned_decimal (c # cs))"

subsection \<open>The data frame (app.py, lines 69-70)\<close>

text \<open>
  \<^verbatim>\<open>pd.DataFrame(all_asteroids)\<close> gives each column a dtype. For the payloads of the
  feed the text columns hold strings, the diameters numbers (\<^verbatim>\<open>float64\<close>) and the
  hazard flag booleans (\<^verbatim>\<open>bool\<close>); \<open>typed_info\<close> reads one dict at these dtypes.
  What pandas does with a column of any other content (object dtype, missing values)
  is outside the model: \<open>None\<close>.
\<close>

type_synonym typed_info = "(string, real, bool) asteroid_info"

fun as_str :: "json \<Rightarrow> string option" where
  "as_str (JStr s) = Some s"
| "as_str v = None"

fun as_num :: "json \<Rightarrow> real option" where
  "as_num (JNum n) = Some n"
| "as_num v = None"

fun as_bool :: "json \<Rightarrow> bool option" where
  "as_bool (JBool b) = Some b"
| "as_bool v = None"

definition typed_info :: "raw_info \<Rightarrow> typed_info option" where
  "typed_info a =
     (case (as_str (id' a), as_str (name a), as_num (diameter_min_km a),
            as_num (diameter_max_km a), as_bool (is_hazardous a),
            as_str (close_approach_date a)) of
        (Some i, Some n, Some lo, Some hi, Some h, Some c) \<Rightarrow>
          Some \<lparr>id' = i, name = n, date = date a,
                diameter_min_km = lo, diameter_max_km = hi,
                is_hazardous = h, close_approach_date = c,
                miss_distance_km = miss_distance_km a,
                relative_velocity_kph = relative_velocity_kph a\<rparr>
      | _ \<Rightarrow> None)"

text \<open>A row of the frame: the columns of the dict and the derived \<^verbatim>\<open>avg_diameter_km\<close>.\<close>

record flat_record = "(string, real, bool) asteroid_info" +
  avg_diameter_km :: real

text \<open>
  \<^verbatim>\<open>
  df = pd.DataFrame(all_asteroids)
  df['avg_diameter_km'] = (df['diameter_min_km'] + df['diameter_max_km']) / 2
  \<close>
  A frame built from the empty list has no columns, so the column lookup of the second
  line raises \<^verbatim>\<open>KeyError\<close>.
\<close>

definition with_avg_diameter :: "typed_info \<Rightarrow> flat_record" where
  "with_avg_diameter a =
     \<lparr>id' = id' a, name = name a, date = date a,
      diameter_min_km = diameter_min_km a, diameter_max_km = diameter_max_km a,
      is_hazardous = is_hazardous a, close_approach_date = close_approach_date a,
      miss_distance_km = miss_distance_km a,
      relative_velocity_kph = relative_velocity_kph a,
      avg_diameter_km = (diameter_min_km a + diameter_max_km a) / 2\<rparr>"

definition data_frame :: "typed_info list \<Rightarrow> error + flat_record list" where
  "data_frame all_asteroids =
     (if all_asteroids = [] then Inl KeyError
      else Inr (map with_avg_diameter all_asteroids))"


subsection \<open>numpy arithmetic\<close>

text \<open>
  A value read from a frame (\<^verbatim>\<open>Series.sum()\<close>, \<^verbatim>\<open>Series.mean()\<close>, a cell of the row
  \<^verbatim>\<open>filtered_df[...].iloc[0]\<close>) is a numpy scalar, not a Python \<^verbatim>\<open>float\<close> or
  \<^verbatim>\<open>int\<close>. Dividing a numpy scalar by zero, or a Python number by a numpy zero, does
  not raise \<^verbatim>\<open>ZeroDivisionError\<close>: numpy emits a \<^verbatim>\<open>RuntimeWarning\<close> and the result
  is the IEEE value, an infinity with the sign of the dividend, or NaN for 0/0. The
  values of the model are the reals and these three.
\<close>

datatype npfloat = Finite real | PosInf | NegInf | NaN

definition np_truediv :: "real \<Rightarrow> real \<Rightarrow> npfloat" where
  "np_truediv a b =
     (if b \<noteq> 0 then Finite (a / b)
      else if a > 0 then PosInf
      else if a < 0 then NegInf
      else NaN)"

text \<open>Multiplication by a finite constant, and addition.\<close>

fun np_mul :: "npfloat \<Rightarrow> real \<Rightarrow> npfloat" where
  "np_mul (Finite x) c = Finite (x * c)"
| "np_mul PosInf c = (if c > 0 then PosInf else if c < 0 then NegInf else NaN)"
| "np_mul NegInf c = (if c > 0 then NegInf else if c < 0 then PosInf else NaN)"
| "np_mul NaN c = NaN"

fun np_add :: "npfloat \<Rightarrow> npfloat \<Rightarrow> npfloat" where
  "np_add (Finite x) (Finite y) = Finite (x + y)"
| "np_add NaN y = NaN"
| "np_add x NaN = NaN"
| "np_add PosInf NegInf = NaN"
| "np_add NegInf PosInf = NaN"
| "np_add PosInf y = PosInf"
| "np_add x PosInf = PosInf"
| "np_add NegInf y = NegInf"
| "np_add x NegInf = NegInf"

text \<open>The comparison \<^verbatim>\<open>a < b\<close>: false whenever a NaN is involved.\<close>

fun np_less :: "npfloat \<Rightarrow> npfloat \<Rightarrow> bool" where
  "np_less NaN y = False"
| "np_less x NaN = False"
| "np_less (Finite x) (Finite y) = (x < y)"
| "np_less x NegInf = False"
| "np_less PosInf y = False"
| "np_less NegInf y = True"
| "np_less x PosInf = True"

text \<open>
  Python's \<^verbatim>\<open>min(a, b)\<close> keeps its first argument unless the second is smaller.
\<close>

definition py_min :: "npfloat \<Rightarrow> npfloat \<Rightarrow> npfloat" where
  "py_min a b = (if np_less b a then b else a)"

subsection \<open>Summary statistics (visuals.py, lines 6-15; app.py, lines 72-80)\<close>

text \<open>
  \<^verbatim>\<open>
  st.metric("Total Asteroids", len(df))
  hazardous_count = df['is_hazardous'].sum()
  st.metric(..., f"{hazardous_count} ({hazardous_count/len(df)*100:.1f}%)")
  st.metric("Avg. Size", f"{df['avg_diameter_km'].mean():.2f} km")
  \<close>
  The record holds the numbers that are formatted. The mean of a series is its sum
  divided by its length, NaN for the empty series.
\<close>

record summary =
  total :: nat
  hazardous_count :: nat
  hazardous_pct :: npfloat
  avg_size :: npfloat

definition is_hazardous_sum :: "flat_record list \<Rightarrow> nat" where
  "is_hazardous_sum df = length (filter is_hazardous df)"

definition series_mean :: "real list \<Rightarrow> npfloat" where
  "series_mean xs = np_truediv (sum_list xs) (real (length xs))"

definition render_summary :: "flat_record list \<Rightarrow> summary" where
  "render_summary df =
     (let hazardous_count = is_hazardous_sum df in
      \<lparr>total = length df,
       hazardous_count = hazardous_count,
       hazardous_pct = np_mul (np_truediv (real hazardous_count) (real (length df))) 100,
       avg_size = series_mean (map avg_diameter_km df)\<rparr>)"

text \<open>
  The script repeats the body of \<^verbatim>\<open>render_summary\<close> on the frame it has just built
  from \<^verbatim>\<open>all_asteroids\<close>.
\<close>

definition summary_statistics :: "typed_info list \<Rightarrow> error + summary" where
  "summary_statistics all_asteroids =
     and_then (data_frame all_asteroids) (\<lambda>df. Inr (render_summary df))"

subsection \<open>Filters (app.py, lines 116-119)\<close>

text \<open>
  \<^verbatim>\<open>
  filtered_df = df.copy()
  if show_hazardous:
      filtered_df = filtered_df[filtered_df['is_hazardous'] == True]
  filtered_df = filtered_df[filtered_df['avg_diameter_km'] >= size_threshold]
  \<close>
\<close>

definition filter_hazardous :: "bool \<Rightarrow> flat_record list \<Rightarrow> flat_record list" where
  "filter_hazardous show_hazardous df =
     (if show_hazardous then filter (\<lambda>r. is_hazardous r = True) df else df)"

definition filter_size :: "real \<Rightarrow> flat_record list \<Rightarrow> flat_record list" where
  "filter_size size_threshold df = filter (\<lambda>r. avg_diameter_km r \<ge> size_threshold) df"

definition apply_filters :: "bool \<Rightarrow> real \<Rightarrow> flat_record list \<Rightarrow> flat_record list" where
  "apply_filters show_hazardous size_threshold df =
     filter_size size_threshold (filter_hazardous show_hazardous df)"

subsection \<open>Sorting (app.py, lines 121-125)\<close>







subsection \<open>Relative hazard level (app.py, lines 155-168)\<close>

text \<open>
  \<^verbatim>\<open>
  hazard_level = 0
  if asteroid_details['is_hazardous']:
      size_factor = min(asteroid_details['avg_diameter_km'] / 0.5, 1)
      distance_factor = min(1000000 / asteroid_details['miss_distance_km'], 1)
      hazard_level = (size_factor * 0.7 + distance_factor * 0.3) * 100
  \<close>
  The cells of \<^verbatim>\<open>asteroid_details\<close> are numpy scalars, so both divisions are numpy's.
\<close>

definition size_factor :: "flat_record \<Rightarrow> npfloat" where
  "size_factor r = py_min (np_truediv (avg_diameter_km r) 0.5) (Finite 1)"

definition distance_factor :: "flat_record \<Rightarrow> npfloat" where
  "distance_factor r = py_min (np_truediv 1000000 (miss_distance_km r)) (Finite 1)"

definition hazard_level :: "flat_record \<Rightarrow> npfloat" where
  "hazard_level r =
     (if is_hazardous r
      then np_mul (np_add (np_mul (size_factor r) 0.7) (np_mul (distance_factor r) 0.3)) 100
      else Finite 0)"



subsection \<open>Sample data\<close>

text \<open>
  One date, \<^verbatim>\<open>"2024-01-01"\<close>, with the object \<^verbatim>\<open>Rock\<close>: diameters 0.1 and 0.3 km,
  hazardous, one close approach at 500000 km and 40000 km/h.
\<close>

definition rock :: json where
  "rock = JObj
     [(''id'', JStr ''1''),
      (''name'', JStr ''Rock''),
      (''estimated_diameter'', JObj
         [(''kilometers'', JObj
            [(''estimated_diameter_min'', JNum (1 / 10)),
             (''estimated_diameter_max'', JNum (3 / 10))])]),
      (''is_potentially_hazardous_asteroid'', JBool True),
      (''close_approach_data'', JArr
         [JObj
            [(''close_approach_date'', JStr ''2024-01-01''),
             (''miss_distance'', JObj [(''kilometers'', JStr ''500000'')]),
             (''relative_velocity'', JObj [(''kilometers_per_hour'', JStr ''40000'')])]])]"

text \<open>The dict the loop builds for \<^verbatim>\<open>Rock\<close>.\<close>

definition rock_info :: raw_info where
  "rock_info =
     \<lparr>id' = JStr ''1'', name = JStr ''Rock'', date = ''2024-01-01'',
      diameter_min_km = JNum (1 / 10), diameter_max_km = JNum (3 / 10),
      is_hazardous = JBool True, close_approach_date = JStr ''2024-01-01'',
      miss_distance_km = 500000, relative_velocity_kph = 40000\<rparr>"

definition rock_payload :: json where
  "rock_payload = JObj
     [(''element_count'', JNum 1),
      (''near_earth_objects'', JObj [(''2024-01-01'', JArr [rock])])]"

text \<open>
  The same date with a second object listed first: it has a close approach but no
  \<^verbatim>\<open>name\<close>, no diameter and no hazard flag.
\<close>

definition nameless :: json where
  "nameless = JObj
     [(''id'', JStr ''2''),
      (''close_approach_data'', JArr
         [JObj
            [(''close_approach_date'', JStr ''2024-01-01''),
             (''miss_distance'', JObj [(''kilometers'', JStr ''900000'')]),
             (''relative_velocity'', JObj [(''kilometers_per_hour'', JStr ''30000'')])]])]"

definition mixed_payload :: json where
  "mixed_payload = JObj
     [(''element_count'', JNum 2),
      (''near_earth_objects'', JObj [(''2024-01-01'', JArr [nameless, rock])])]"

text \<open>A payload whose only object has an empty list of close approaches.\<close>

definition silent :: json where
  "silent = JObj
     [(''id'', JStr ''3''), (''name'', JStr ''Silent''), (''close_approach_data'', JArr [])]"

definition silent_payload :: json where
  "silent_payload = JObj
     [(''element_count'', JNum 1),
      (''near_earth_objects'', JObj [(''2024-01-01'', JArr [silent])])]"

text \<open>
  The row of \<^verbatim>\<open>Rock\<close> in the frame, and rows used as inputs below: \<^verbatim>\<open>Pebble\<close>
  approaches on the same day; \<open>calm_row\<close> is not flagged as hazardous;
  \<open>negative_row\<close> carries a negative miss distance, which \<^verbatim>\<open>float("-1")\<close> yields.
\<close>

definition rock_row :: flat_record where
  "rock_row =
     \<lparr>id' = ''1'', name = ''Rock'', date = ''2024-01-01'',
      diameter_min_km = 1 / 10, diameter_max_km = 3 / 10,
      is_hazardous = True, close_approach_date = ''2024-01-01'',
      miss_distance_km = 500000, relative_velocity_kph = 40000,
      avg_diameter_km = 2 / 10\<rparr>"

definition pebble_row :: flat_record where
  "pebble_row =
     \<lparr>id' = ''4'', name = ''Pebble'', date = ''2024-01-01'',
      diameter_min_km = 1 / 100, diameter_max_km = 3 / 100,
      is_hazardous = False, close_approach_date = ''2024-01-01'',
      miss_distance_km = 7000000, relative_velocity_kph = 52000,
      avg_diameter_km = 2 / 100\<rparr>"



section \<open>Properties\<close>

subsection \<open>Date window\<close>

text \<open>
  C7. For every start date and end date, the validator clamps the end to start + 7 days
  and signals the clamp exactly when end - start exceeds 7 days; otherwise the window is
  returned unchanged with no signal. The start date is never modified, and no
  \<^verbatim>\<open>OverflowError\<close> arises for two dates of the calendar.
\<close>

theorem validate_date_range_clamp:
  assumes "valid_date start" and "valid_date end"
  shows "validate_date_range start end =
           Inr \<lparr>start_date = start,
                end_date = (if end - start > 7 then start + 7 else end),
                warned = (end - start > 7)\<rparr>"
  using assms
  by (simp add: validate_date_range_def date_add_days_def valid_date_def
        date_min_def date_max_def Let_def)

theorem validate_date_range_clamp_witness:
  "valid_date 738886 \<and> valid_date 738896 \<and>
   validate_date_range 738886 738896 =
     Inr \<lparr>start_date = 738886, end_date = 738893, warned = True\<rparr>"
proof -
  have s: "valid_date 738886" and e: "valid_date 738896"
    by (simp_all add: valid_date_def date_min_def date_max_def)
  show ?thesis
    using s e validate_date_range_clamp [OF s e] by simp
qed

subsection \<open>Normalization\<close>

text \<open>
  Each pass of the loop body either skips the object, appends one dict, or raises;
  which of the first two happens is decided by \<open>has_close_approach\<close> alone.
\<close>

lemma flatten_asteroid_skip:
  "flatten_asteroid parse dt a = Inr None \<Longrightarrow> \<not> has_close_approach a"
  by (auto simp: flatten_asteroid_def has_close_approach_def and_then_def
        split: sum.splits if_splits)

lemma flatten_asteroid_keep:
  "flatten_asteroid parse dt a = Inr (Some info) \<Longrightarrow> has_close_approach a"
  by (auto simp: flatten_asteroid_def has_close_approach_def and_then_def
        split: sum.splits if_splits)

lemma for_asteroids_length:
  "for_asteroids parse dt objs acc = Inr out \<Longrightarrow>
     length out = length acc + length (filter has_close_approach objs)"
proof (induction objs arbitrary: acc)
  case Nil
  then show ?case by simp
next
  case (Cons a objs)
  show ?case
  proof (cases "flatten_asteroid parse dt a")
    case (Inl e)
    with Cons.prems show ?thesis by simp
  next
    case (Inr r)
    show ?thesis
    proof (cases r)
      case None
      with Inr Cons.prems have "for_asteroids parse dt objs acc = Inr out" by simp
      from Cons.IH [OF this] flatten_asteroid_skip [of parse dt a] Inr None
      show ?thesis by simp
    next
      case (Some info)
      with Inr Cons.prems have "for_asteroids parse dt objs (acc @ [info]) = Inr out" by simp
      from Cons.IH [OF this] flatten_asteroid_keep [of parse dt a info] Inr Some
      show ?thesis by simp
    qed
  qed
qed

lemma for_dates_length:
  "for_dates parse items acc = Inr out \<Longrightarrow>
     length out = length acc + length (filter has_close_approach (concat (map date_objects items)))"
proof (induction items arbitrary: acc)
  case Nil
  then show ?case by simp
next
  case (Cons item items)
  obtain dt asteroids where item: "item = (dt, asteroids)" by (cases item)
  from Cons.prems item obtain objs acc' where
    it: "py_iter asteroids = Inr objs" and
    fa: "for_asteroids parse dt objs acc = Inr acc'" and
    fd: "for_dates parse items acc' = Inr out"
    by (auto split: sum.splits)
  from it item have "date_objects item = objs" by (simp add: date_objects_def)
  with Cons.IH [OF fd] for_asteroids_length [OF fa] show ?case by simp
qed

lemma normalize_length:
  "normalize parse data = Inr recs \<Longrightarrow>
     length recs = length (filter has_close_approach (raw_objects data))"
  by (auto simp: normalize_def raw_objects_def and_then_def
        split: sum.splits dest: for_dates_length)

lemma length_filter_eq_iff:
  "length (filter P xs) = length xs \<longleftrightarrow> (\<forall>x\<in>set xs. P x)"
proof (induction xs)
  case Nil
  show ?case by simp
next
  case (Cons x xs)
  have le: "length (filter P xs) \<le> length xs" by simp
  show ?case
  proof (cases "P x")
    case True
    with Cons show ?thesis by simp
  next
    case False
    from le have "length (filter P xs) \<noteq> Suc (length xs)" by linarith
    with False show ?thesis by simp
  qed
qed

text \<open>
  C6. When the normalization loop returns, its output is at most as long as the number
  of objects the payload lists, and as long exactly when every object has at least one
  close approach. An object with an empty list of close approaches contributes nothing:
  a payload whose only object is such an object normalizes to the empty list.
\<close>

theorem normalize_length_bound:
  "(normalize parse data = Inr recs \<longrightarrow>
      length recs \<le> total_object_count data \<and>
      (length recs = total_object_count data \<longleftrightarrow>
         (\<forall>ob\<in>set (raw_objects data). has_close_approach ob))) \<and>
   (dict_get data ''near_earth_objects'' (JObj []) = Inr (JObj [(dt, JArr [ob])]) \<and>
    getitem ob (Key ''close_approach_data'') = Inr (JArr []) \<longrightarrow>
      normalize parse data = Inr [])"
proof -
  have bound: "length recs \<le> total_object_count data \<and>
      (length recs = total_object_count data \<longleftrightarrow>
         (\<forall>ob\<in>set (raw_objects data). has_close_approach ob))"
    if "normalize parse data = Inr recs"
  proof -
    from that have "length recs = length (filter has_close_approach (raw_objects data))"
      by (rule normalize_length)
    then show ?thesis
      by (simp add: total_object_count_def length_filter_eq_iff)
  qed
  have dropped: "normalize parse data = Inr []"
    if "dict_get data ''near_earth_objects'' (JObj []) = Inr (JObj [(dt, JArr [ob])])"
      and "getitem ob (Key ''close_approach_data'') = Inr (JArr [])"
    using that by (simp add: normalize_def and_then_def flatten_asteroid_def)
  from bound dropped show ?thesis by blast
qed

theorem normalize_length_bound_witness:
  "normalize decimal rock_payload = Inr [rock_info] \<and>
   total_object_count rock_payload = 1 \<and>
   raw_objects rock_payload = [rock] \<and> has_close_approach rock \<and>
   normalize decimal silent_payload = Inr [] \<and>
   total_object_count silent_payload = 1"
proof -
  have r: "normalize decimal rock_payload = Inr [rock_info]"
    by (simp add: normalize_def rock_payload_def rock_def rock_info_def flatten_asteroid_def
          and_then_def unsigned_decimal_def digit_of_def)
  have c: "total_object_count rock_payload = 1"
    by (simp add: total_object_count_def raw_objects_def rock_payload_def date_objects_def)
  have c': "total_object_count silent_payload = 1"
    by (simp add: total_object_count_def raw_objects_def silent_payload_def date_objects_def)
  have o: "raw_objects rock_payload = [rock]"
    by (simp add: raw_objects_def rock_payload_def date_objects_def)
  have g: "dict_get silent_payload ''near_earth_objects'' (JObj []) =
             Inr (JObj [(''2024-01-01'', JArr [silent])])"
    by (simp add: silent_payload_def)
  have e: "getitem silent (Key ''close_approach_data'') = Inr (JArr [])"
    by (simp add: silent_def)
  from normalize_length_bound [of decimal rock_payload "[rock_info]"] r c o
  have "has_close_approach rock" by simp
  moreover from normalize_length_bound [of decimal silent_payload "[]" "''2024-01-01''" silent] g e
  have "normalize decimal silent_payload = Inr []" by blast
  ultimately show ?thesis using r c c' o by blast
qed

text \<open>
  An object on which the loop body cannot complete raises, and the exception leaves
  both loops: nothing in them catches it.
\<close>

lemma and_then_InrE:
  assumes "and_then m f = Inr v"
  obtains x where "m = Inr x" and "f x = Inr v"
  using assms by (cases m) (simp_all add: and_then_def)

lemma getpath_single: "getpath v [sub] = getitem v sub"
  by (cases "getitem v sub") (simp_all add: and_then_def)

lemma flatten_asteroid_complete:
  assumes "flatten_asteroid parse dt ob = Inr v" and "has_close_approach ob"
  shows "\<not> list_ex (lacks ob) required_paths"
proof -
  from assms(2) obtain cad where
    cad: "getitem ob (Key ''close_approach_data'') = Inr cad" and t: "truthy cad"
    by (auto simp: has_close_approach_def split: sum.splits)
  from assms(1) cad t show ?thesis
    unfolding flatten_asteroid_def
    by (auto elim!: and_then_InrE simp: required_paths_def lacks_def getpath_single
          simp del: getpath.simps)
qed

lemma flatten_asteroid_raises:
  assumes "missing_required_field ob"
  shows "\<exists>e. flatten_asteroid parse dt ob = Inl e"
proof (cases "getitem ob (Key ''close_approach_data'')")
  case (Inl e)
  then show ?thesis by (simp add: flatten_asteroid_def and_then_def)
next
  case (Inr cad)
  with assms have h: "has_close_approach ob" and l: "list_ex (lacks ob) required_paths"
    by (simp_all add: missing_required_field_def lacks_def and_then_def)
  from flatten_asteroid_complete [OF _ h] l show ?thesis
    by (cases "flatten_asteroid parse dt ob") auto
qed

lemma for_asteroids_raises:
  assumes "ob \<in> set objs" and "flatten_asteroid parse dt ob = Inl e"
  shows "\<exists>e'. for_asteroids parse dt objs acc = Inl e'"
  using assms
proof (induction objs arbitrary: acc)
  case Nil
  then show ?case by simp
next
  case (Cons a objs)
  show ?case
  proof (cases "flatten_asteroid parse dt a")
    case (Inl e1)
    then show ?thesis by simp
  next
    case (Inr v)
    with Cons.prems have "ob \<in> set objs" by auto
    from Cons.IH [OF this Cons.prems(2)] Inr show ?thesis
      by (cases v) simp_all
  qed
qed

lemma for_dates_raises:
  assumes "(dt, asteroids) \<in> set items" and "py_iter asteroids = Inr objs"
      and "ob \<in> set objs" and "flatten_asteroid parse dt ob = Inl e"
  shows "\<exists>e'. for_dates parse items acc = Inl e'"
  using assms(1)
proof (induction items arbitrary: acc)
  case Nil
  then show ?case by simp
next
  case (Cons item items)
  obtain d a where item: "item = (d, a)" by (cases item)
  show ?case
  proof (cases "item = (dt, asteroids)")
    case True
    with assms(2) for_asteroids_raises [OF assms(3,4), of acc] show ?thesis
      by (auto split: sum.splits)
  next
    case False
    with Cons.prems have "(dt, asteroids) \<in> set items" by simp
    from Cons.IH [OF this] item show ?thesis
      by (auto split: sum.splits)
  qed
qed

text \<open>
  C5, as the code has it. The loop skips an object only for an empty list of close
  approaches. When a payload lists an object that has close approaches and lacks one of
  the nested fields the dict literal reads (or lacks \<^verbatim>\<open>close_approach_data\<close>
  itself), the lookup raises and the whole batch is aborted: no record is produced, for
  that object or for any other.
\<close>

theorem normalize_aborts_on_missing_field:
  assumes "dict_get data ''near_earth_objects'' (JObj []) = Inr (JObj items)"
      and "(dt, JArr objs) \<in> set items"
      and "ob \<in> set objs"
      and "missing_required_field ob"
  shows "\<exists>e. normalize parse data = Inl e"
proof -
  from flatten_asteroid_raises [OF assms(4)] obtain e where
    "flatten_asteroid parse dt ob = Inl e" ..
  from for_dates_raises [OF assms(2) _ assms(3) this] assms(1) show ?thesis
    by (simp add: normalize_def and_then_def)
qed

theorem normalize_aborts_on_missing_field_witness:
  "dict_get mixed_payload ''near_earth_objects'' (JObj []) =
     Inr (JObj [(''2024-01-01'', JArr [nameless, rock])]) \<and>
   missing_required_field nameless \<and>
   (\<exists>e. normalize decimal mixed_payload = Inl e)"
proof -
  have g: "dict_get mixed_payload ''near_earth_objects'' (JObj []) =
     Inr (JObj [(''2024-01-01'', JArr [nameless, rock])])"
    by (simp add: mixed_payload_def)
  have i: "(''2024-01-01'', JArr [nameless, rock]) \<in> set [(''2024-01-01'', JArr [nameless, rock])]"
    by simp
  have o: "nameless \<in> set [nameless, rock]" by simp
  have m: "missing_required_field nameless"
    by (simp add: missing_required_field_def lacks_def has_close_approach_def nameless_def
          required_paths_def and_then_def)
  from normalize_aborts_on_missing_field [OF g i o m, of decimal] g m show ?thesis by blast
qed

text \<open>
  Skipping the malformed object and continuing is not what happens: with an object
  without \<^verbatim>\<open>name\<close> listed before \<^verbatim>\<open>Rock\<close> the result is \<^verbatim>\<open>KeyError\<close>, while
  \<^verbatim>\<open>Rock\<close> alone yields its record.
\<close>

theorem normalize_mixed_counterexample:
  "normalize decimal mixed_payload = Inl KeyError \<and>
   normalize decimal mixed_payload \<noteq> Inr [rock_info] \<and>
   normalize decimal rock_payload = Inr [rock_info]"
  by (simp add: normalize_def mixed_payload_def rock_payload_def nameless_def rock_def
        rock_info_def flatten_asteroid_def and_then_def unsigned_decimal_def digit_of_def)

subsection \<open>Summary statistics\<close>

text \<open>
  C1, as the code has it. Over a non-empty set of records the hazardous percentage is
  \<open>hazardous_count / total * 100\<close> and the average size is the sum of the average
  diameters divided by their number, in \<^verbatim>\<open>render_summary\<close> and in the script alike.
  Over the empty set nothing guards the divisions and no error result is produced:
  \<^verbatim>\<open>render_summary\<close> computes NaN for both numbers.
\<close>

theorem summary_of_records:
  "(df \<noteq> [] \<longrightarrow>
      total (render_summary df) = length df \<and>
      hazardous_count (render_summary df) = length (filter is_hazardous df) \<and>
      hazardous_pct (render_summary df) =
        Finite (real (hazardous_count (render_summary df)) / real (total (render_summary df)) * 100) \<and>
      avg_size (render_summary df) =
        Finite (sum_list (map avg_diameter_km df) / real (length df))) \<and>
   (all_asteroids \<noteq> [] \<longrightarrow>
      summary_statistics all_asteroids =
        Inr (render_summary (map with_avg_diameter all_asteroids))) \<and>
   hazardous_pct (render_summary []) = NaN \<and>
   avg_size (render_summary []) = NaN"
  by (simp add: summary_statistics_def data_frame_def and_then_def render_summary_def
        is_hazardous_sum_def series_mean_def np_truediv_def Let_def)

theorem summary_of_records_witness:
  "[rock_row, pebble_row] \<noteq> [] \<and>
   total (render_summary [rock_row, pebble_row]) = 2 \<and>
   hazardous_count (render_summary [rock_row, pebble_row]) = 1 \<and>
   hazardous_pct (render_summary [rock_row, pebble_row]) = Finite 50 \<and>
   avg_size (render_summary [rock_row, pebble_row]) = Finite (11 / 100)"
  using summary_of_records [of "[rock_row, pebble_row]" "[]"]
  by (simp add: render_summary_def is_hazardous_sum_def rock_row_def pebble_row_def)

text \<open>
  No empty-corpus error is signalled for zero records: the script stops with
  \<^verbatim>\<open>KeyError\<close> when it derives \<^verbatim>\<open>avg_diameter_km\<close> on the frame without columns,
  and \<^verbatim>\<open>render_summary\<close> on an empty frame shows NaN.
\<close>

theorem empty_corpus_counterexample:
  "summary_statistics [] = Inl KeyError \<and>
   summary_statistics [] \<noteq> Inl EmptyCorpusError \<and>
   hazardous_pct (render_summary []) = NaN \<and>
   avg_size (render_summary []) = NaN"
  by (simp add: summary_statistics_def data_frame_def and_then_def render_summary_def
        is_hazardous_sum_def series_mean_def np_truediv_def)

subsection \<open>Filters and sorting\<close>

text \<open>
  C8. The hazardous-only filter and the minimum-size filter commute: applied in either
  order to any frame, for any setting of the checkbox and the slider, they keep the same
  rows (in the same order); the script's order is one of the two.
\<close>

theorem filters_commute:
  "filter_size size_threshold (filter_hazardous show_hazardous df) =
     filter_hazardous show_hazardous (filter_size size_threshold df) \<and>
   apply_filters show_hazardous size_threshold df =
     filter_hazardous show_hazardous (filter_size size_threshold df)"
  by (auto simp: apply_filters_def filter_size_def filter_hazardous_def intro: filter_cong)





subsection \<open>Hazard level\<close>

text \<open>
  With real inputs both factors are finite: the division by a zero miss distance gives
  numpy's infinity, which \<^verbatim>\<open>min(..., 1)\<close> replaces by 1.
\<close>

lemma size_factor_eq: "size_factor r = Finite (min (avg_diameter_km r / 0.5) 1)"
  by (simp add: size_factor_def np_truediv_def py_min_def min_def)

lemma distance_factor_eq:
  "distance_factor r =
     Finite (if miss_distance_km r = 0 then 1 else min (1000000 / miss_distance_km r) 1)"
  by (simp add: distance_factor_def np_truediv_def py_min_def min_def)

lemma hazard_level_eq:
  "hazard_level r =
     Finite (if is_hazardous r
             then (min (avg_diameter_km r / 0.5) 1 * 0.7 +
                   (if miss_distance_km r = 0 then 1 else min (1000000 / miss_distance_km r) 1) * 0.3) * 100
             else 0)"
  by (simp add: hazard_level_def size_factor_eq distance_factor_eq)






text \<open>
  C10. For hazardous records with positive miss distances, the hazard level is monotone:
  at equal miss distance it does not decrease when the average diameter grows, and at
  equal average diameter it does not increase when the miss distance grows.
\<close>

theorem hazard_level_monotone:
  assumes "is_hazardous a" and "is_hazardous b"
      and "0 < miss_distance_km a" and "0 < miss_distance_km b"
  shows "\<exists>x y. hazard_level a = Finite x \<and> hazard_level b = Finite y \<and>
           (miss_distance_km a = miss_distance_km b \<and> avg_diameter_km a \<le> avg_diameter_km b
              \<longrightarrow> x \<le> y) \<and>
           (avg_diameter_km a = avg_diameter_km b \<and> miss_distance_km a \<le> miss_distance_km b
              \<longrightarrow> y \<le> x)"
proof -
  have size: "min (avg_diameter_km a / 0.5) 1 \<le> min (avg_diameter_km b / 0.5) (1::real)"
    if "avg_diameter_km a \<le> avg_diameter_km b"
    using that by (simp add: min_def)
  have dist: "min (1000000 / miss_distance_km b) 1 \<le> min (1000000 / miss_distance_km a) (1::real)"
    if "miss_distance_km a \<le> miss_distance_km b"
  proof -
    from that assms(3) have "1000000 / miss_distance_km b \<le> 1000000 / miss_distance_km a"
      by (simp add: frac_le)
    then show ?thesis by (simp add: min_def)
  qed
  show ?thesis
    using assms size dist by (auto simp: hazard_level_eq)
qed

theorem hazard_level_monotone_witness:
  "is_hazardous rock_row \<and> 0 < miss_distance_km rock_row \<and>
   hazard_level rock_row = Finite 58 \<and>
   hazard_level (rock_row\<lparr>avg_diameter_km := 3 / 10\<rparr>) = Finite 72 \<and>
   hazard_level (rock_row\<lparr>miss_distance_km := 2000000\<rparr>) = Finite 43"
proof -
  let ?big = "rock_row\<lparr>avg_diameter_km := 3 / 10\<rparr>"
  let ?far = "rock_row\<lparr>miss_distance_km := 2000000\<rparr>"
  have h: "is_hazardous rock_row" and hb: "is_hazardous ?big" and hf: "is_hazardous ?far"
    by (simp_all add: rock_row_def)
  have m: "0 < miss_distance_km rock_row" and mb: "0 < miss_distance_km ?big"
    and mf: "0 < miss_distance_km ?far"
    by (simp_all add: rock_row_def)
  from hazard_level_monotone [OF h hb m mb] hazard_level_monotone [OF h hf m mf]
  show ?thesis
    using h m by (simp add: hazard_level_eq rock_row_def)
qed

subsection \<open>The Rock scenario\<close>


end
